theory Spec2Isabelle
  imports Complex_Main "HOL-Library.Multiset" "HOL-Library.Sublist"
begin

section \<open>JavaScript values and strings\<close>

text \<open>
  A JavaScript string is modelled as a \<^typ>\<open>string\<close>; one \<^typ>\<open>char\<close> stands for one
  code unit, so \<open>length\<close> is the string's \<open>.length\<close>. The model is exact for ASCII text:
  the white space removed by \<open>String.prototype.trim\<close> and skipped by \<open>parseInt\<close> is TAB, LF,
  VT, FF, CR and SPACE, and the letters folded by a case-insensitive match are A to Z.
\<close>

definition is_space :: "char \<Rightarrow> bool" where
  "is_space c = (c \<in> set [CHR 0x09, CHR 0x0A, CHR 0x0B, CHR 0x0C, CHR 0x0D, CHR 0x20])"

definition trim :: "string \<Rightarrow> string" where
  "trim s = rev (dropWhile is_space (rev (dropWhile is_space s)))"

definition is_digit :: "char \<Rightarrow> bool" where
  "is_digit c = (48 \<le> (of_char c :: nat) \<and> (of_char c :: nat) \<le> 57)"

definition digit_val :: "char \<Rightarrow> nat" where
  "digit_val c = of_char c - 48"

definition digits_val :: "string \<Rightarrow> nat" where
  "digits_val z = foldl (\<lambda>acc c. acc * 10 + digit_val c) 0 z"

text \<open>
  \<open>parseInt(s, 10)\<close>: skip leading white space, read an optional sign, then the longest
  run of decimal digits; no digit gives NaN, here \<open>None\<close>. Numbers are mathematical
  integers (exact in JavaScript below \<open>2^53\<close>).
\<close>

definition parseInt :: "string \<Rightarrow> int option" where
  "parseInt s =
     (let s1 = dropWhile is_space s;
          neg = (s1 \<noteq> [] \<and> hd s1 = CHR ''-'');
          s2 = (if s1 \<noteq> [] \<and> (hd s1 = CHR ''-'' \<or> hd s1 = CHR ''+'') then tl s1 else s1);
          z = takeWhile is_digit s2
      in if z = [] then None
         else Some (if neg then - int (digits_val z) else int (digits_val z)))"

text \<open>\<open>Number.prototype.toString\<close> on an integer: its decimal digits, with a sign.\<close>

fun dec :: "nat \<Rightarrow> string" where
  "dec n = (if n < 10 then [char_of (48 + n)] else dec (n div 10) @ [char_of (48 + n mod 10)])"

declare dec.simps [simp del]

definition show_int :: "int \<Rightarrow> string" where
  "show_int i = (if i < 0 then CHR ''-'' # dec (nat (- i)) else dec (nat i))"

text \<open>
  The values a parsed JSON body holds. \<open>JNum\<close> carries an integral number; numbers with
  a fraction are outside the model. A body is read through its properties: a property
  that is absent reads as \<open>undefined\<close>, which is \<open>None\<close> of \<^typ>\<open>'a option\<close> below, and a
  body that is not an object has none of the properties the handlers read.
\<close>

datatype jsval =
    JNull
  | JBool bool
  | JNum int
  | JStr string
  | JArr "jsval list"
  | JObj "(string \<times> jsval) list"

type_synonym body = "string \<Rightarrow> jsval option"

text \<open>ToBoolean, as \<open>!x\<close> and \<open>if (x)\<close> apply it.\<close>

fun truthy :: "jsval option \<Rightarrow> bool" where
  "truthy None = False"
| "truthy (Some JNull) = False"
| "truthy (Some (JBool b)) = b"
| "truthy (Some (JNum n)) = (n \<noteq> 0)"
| "truthy (Some (JStr s)) = (s \<noteq> [])"
| "truthy (Some (JArr _)) = True"
| "truthy (Some (JObj _)) = True"

section \<open>The Post schema (models/Post.js)\<close>

datatype field = Title | Content | Author

record path_schema =
  required_msg :: string
  minlength :: "nat \<times> string"
  maxlength :: "(nat \<times> string) option"

fun postSchema :: "field \<Rightarrow> path_schema" where
  "postSchema Title =
     \<lparr>required_msg = ''Title is required'',
      minlength = (3, ''Title must be at least 3 characters long''),
      maxlength = Some (100, ''Title cannot exceed 100 characters'')\<rparr>"
| "postSchema Content =
     \<lparr>required_msg = ''Content is required'',
      minlength = (10, ''Content must be at least 10 characters long''),
      maxlength = None\<rparr>"
| "postSchema Author =
     \<lparr>required_msg = ''Author name is required'',
      minlength = (2, ''Author name must be at least 2 characters long''),
      maxlength = Some (50, ''Author name cannot exceed 50 characters'')\<rparr>"

record 'oid post =
  pid :: 'oid
  title :: string
  content :: string
  author :: string
  createdAt :: int
  updatedAt :: int

text \<open>
  Mongoose's cast of a value to a String path: \<open>null\<close> stays \<open>null\<close> (\<open>Value None\<close>); an
  object with a non-empty string \<open>_id\<close> casts to it; a value with a \<open>toString\<close> of its own
  (a string, a number, a boolean) casts to that text; an array or any other object is a
  cast error.
\<close>

datatype cast_result = CastError | Value "string option"

fun castString :: "jsval \<Rightarrow> cast_result" where
  "castString JNull = Value None"
| "castString (JStr s) = Value (Some s)"
| "castString (JNum n) = Value (Some (show_int n))"
| "castString (JBool b) = Value (Some (if b then ''true'' else ''false''))"
| "castString (JArr _) = CastError"
| "castString (JObj kvs) =
     (case map_of (rev kvs) ''_id'' of
        Some (JStr s) \<Rightarrow> if s \<noteq> [] then Value (Some s) else CastError
      | _ \<Rightarrow> CastError)"

text \<open>
  The setters of a String path with \<open>trim: true\<close>, applied when a value is assigned on a
  new document and when an update is cast: cast, then trim. An absent (\<open>undefined\<close>)
  value stays absent, which the validators treat like \<open>null\<close>.
\<close>

definition applySetters :: "jsval option \<Rightarrow> cast_result" where
  "applySetters v =
     (case v of
        None \<Rightarrow> Value None
      | Some x \<Rightarrow>
          (case castString x of
             CastError \<Rightarrow> CastError
           | Value s \<Rightarrow> Value (map_option trim s)))"

text \<open>
  The validators of a path run in the order \<open>required\<close>, \<open>minlength\<close>, \<open>maxlength\<close> and
  stop at the first that fails: \<open>Inl\<close> its message, \<open>Inr\<close> the value that passed.
\<close>

definition doValidate :: "path_schema \<Rightarrow> string option \<Rightarrow> string + string" where
  "doValidate sch v =
     (case v of
        None \<Rightarrow> Inl (required_msg sch)
      | Some s \<Rightarrow>
          if s = [] then Inl (required_msg sch)
          else if length s < fst (minlength sch) then Inl (snd (minlength sch))
          else (case maxlength sch of
                  Some (m, msg) \<Rightarrow> if m < length s then Inl msg else Inr s
                | None \<Rightarrow> Inr s))"

text \<open>
  One entry of a validation error's \<open>errors\<close>: a validator's message, or the message of
  a failed cast at a path (its text quotes the value; only the path is kept here).
\<close>

datatype verror = Message string | CastMessage field

datatype mongoose_error =
    ValidationError "verror list"
  | CastFailed field
  | MongoServerError

primrec lefts :: "('a + 'b) list \<Rightarrow> 'a list" where
  "lefts [] = []"
| "lefts (x # xs) = (case x of Inl a \<Rightarrow> a # lefts xs | Inr _ \<Rightarrow> lefts xs)"

primrec rights :: "('a + 'b) list \<Rightarrow> 'b list" where
  "rights [] = []"
| "rights (x # xs) = (case x of Inl _ \<Rightarrow> rights xs | Inr b \<Rightarrow> b # rights xs)"

section \<open>The store\<close>

text \<open>
  The handlers call the model \<open>Post\<close> of the Mongoose library, which talks to a MongoDB
  collection. Both are outside the repository; the operations the handlers use are
  written here after the libraries' documented behaviour, on the schema of models/Post.js.

  The collection is the list of its documents in natural (insertion) order. The
  collection's index on \<open>_id\<close> is unique: an insert whose \<open>_id\<close> is already there fails
  with a duplicate-key error. The \<open>_id\<close> of a new document and the time are generated
  outside the handlers; they are the inputs \<open>newId\<close> and \<open>now\<close> (milliseconds). Whether the
  store can be reached is not modelled.
\<close>

type_synonym 'oid store = "'oid post list"

definition ids :: "'oid store \<Rightarrow> 'oid set" where
  "ids posts = pid ` set posts"


text \<open>
  Assigning a value to a path of a new document and validating it: the cast error of the
  path, or the message of its first failing validator, or the value to store.
\<close>

definition set_path :: "field \<Rightarrow> jsval option \<Rightarrow> verror + string" where
  "set_path f v =
     (case applySetters v of
        CastError \<Rightarrow> Inl (CastMessage f)
      | Value s \<Rightarrow>
          (case doValidate (postSchema f) s of
             Inl m \<Rightarrow> Inl (Message m)
           | Inr x \<Rightarrow> Inr x))"

text \<open>
  \<open>Post.create({title, content, author})\<close>: the new document gets the generated \<open>_id\<close>
  \<open>newId\<close> and, from the schema's timestamps, \<open>createdAt = updatedAt = now\<close>; it is
  validated, then inserted.
\<close>

definition Post_create ::
  "'oid \<Rightarrow> int \<Rightarrow> 'oid store \<Rightarrow> jsval option \<Rightarrow> jsval option \<Rightarrow> jsval option
     \<Rightarrow> mongoose_error + ('oid post \<times> 'oid store)" where
  "Post_create newId now posts t c a =
     (case (set_path Title t, set_path Content c, set_path Author a) of
        (Inr t', Inr c', Inr a') \<Rightarrow>
          if newId \<in> ids posts then Inl MongoServerError
          else
            (let doc = \<lparr>pid = newId, title = t', content = c', author = a',
                        createdAt = now, updatedAt = now\<rparr>
             in Inr (doc, posts @ [doc]))
      | (rt, rc, ra) \<Rightarrow> Inl (ValidationError (lefts [rt, rc, ra])))"

definition findById :: "'oid store \<Rightarrow> 'oid \<Rightarrow> 'oid post option" where
  "findById posts oid = find (\<lambda>p. pid p = oid) posts"

fun set_field :: "'oid post \<Rightarrow> field \<times> string \<Rightarrow> 'oid post" where
  "set_field p (Title, s) = p\<lparr>title := s\<rparr>"
| "set_field p (Content, s) = p\<lparr>content := s\<rparr>"
| "set_field p (Author, s) = p\<lparr>author := s\<rparr>"

primrec update_first :: "('a \<Rightarrow> bool) \<Rightarrow> ('a \<Rightarrow> 'a) \<Rightarrow> 'a list \<Rightarrow> 'a list" where
  "update_first P f [] = []"
| "update_first P f (x # xs) = (if P x then f x # xs else x # update_first P f xs)"

text \<open>
  Casting an update: each value goes through the path's setters; the first failed cast
  is thrown as a cast error (not a validation error).
\<close>

fun castUpdate :: "(field \<times> jsval) list \<Rightarrow> mongoose_error + (field \<times> string option) list" where
  "castUpdate [] = Inr []"
| "castUpdate ((f, v) # rest) =
     (case applySetters (Some v) of
        CastError \<Rightarrow> Inl (CastFailed f)
      | Value s \<Rightarrow>
          (case castUpdate rest of
             Inl e \<Rightarrow> Inl e
           | Inr cs \<Rightarrow> Inr ((f, s) # cs)))"

text \<open>The update validators (\<open>runValidators: true\<close>) run on each path the update sets.\<close>

definition updateValidate :: "(field \<times> string option) list \<Rightarrow> (verror + field \<times> string) list" where
  "updateValidate cs =
     map (\<lambda>(f, s). case doValidate (postSchema f) s of
                      Inl m \<Rightarrow> Inl (Message m)
                    | Inr x \<Rightarrow> Inr (f, x)) cs"

text \<open>
  \<open>Post.findByIdAndUpdate(id, updateData, {new: true, runValidators: true})\<close>: the update
  is cast and validated before the store is asked; then the first document with the
  \<open>_id\<close> gets the new values and \<open>updatedAt = now\<close>, and is returned as updated. No such
  document: \<open>null\<close>, and the store is as it was.
\<close>

definition findByIdAndUpdate ::
  "int \<Rightarrow> 'oid store \<Rightarrow> 'oid \<Rightarrow> (field \<times> jsval) list
     \<Rightarrow> mongoose_error + ('oid post option \<times> 'oid store)" where
  "findByIdAndUpdate now posts oid updateData =
     (case castUpdate updateData of
        Inl e \<Rightarrow> Inl e
      | Inr cs \<Rightarrow>
          (let rs = updateValidate cs in
           if lefts rs \<noteq> [] then Inl (ValidationError (lefts rs))
           else
             (let upd = (\<lambda>p. (foldl set_field p (rights rs))\<lparr>updatedAt := now\<rparr>) in
              case findById posts oid of
                None \<Rightarrow> Inr (None, posts)
              | Some p \<Rightarrow> Inr (Some (upd p), update_first (\<lambda>p. pid p = oid) upd posts))))"


section \<open>Responses\<close>

text \<open>
  The JSON envelopes the handlers send, each with its HTTP status first: a failure with
  its message; a failure with its message and a list of \<open>errors\<close>; a success with an
  optional message and the Post as \<open>data\<close>; the answer of List with \<open>count\<close>, \<open>total\<close>,
  \<open>page\<close>, \<open>pages\<close> and the records as \<open>data\<close>; a success with a message and the empty
  object as \<open>data\<close>. The \<open>error\<close> detail that a 500 response carries in development mode
  is left out.
\<close>

datatype 'oid response =
    Failure nat string
  | FailureList nat string "verror list"
  | PostData nat "string option" "'oid post"
  | PageData nat nat nat int int "'oid post list"
  | EmptyData nat string

fun status :: "'oid response \<Rightarrow> nat" where
  "status (Failure st _) = st"
| "status (FailureList st _ _) = st"
| "status (PostData st _ _) = st"
| "status (PageData st _ _ _ _ _) = st"
| "status (EmptyData st _) = st"

section \<open>The handlers (controllers/postController.js)\<close>

text \<open>
  Every handler that can write takes the store and returns its response with the store
  after it. \<open>parseId\<close> is the store's identifier syntax, applied to the request's \<open>id\<close>
  (here \<open>rawId\<close>): \<open>ObjectId.isValid(id)\<close> holds when \<open>parseId rawId\<close> is some identifier,
  the one the store then looks up.
\<close>

definition createPost ::
  "'oid \<Rightarrow> int \<Rightarrow> 'oid store \<Rightarrow> body \<Rightarrow> 'oid response \<times> 'oid store" where
  "createPost newId now posts b =
     (let title = b ''title''; content = b ''content''; author = b ''author'' in
      if \<not> truthy title \<or> \<not> truthy content \<or> \<not> truthy author
      then (Failure 400 ''Please provide all required fields: title, content, and author'', posts)
      else
        (case Post_create newId now posts title content author of
           Inr (post, posts') \<Rightarrow> (PostData 201 (Some ''Post created successfully'') post, posts')
         | Inl (ValidationError messages) \<Rightarrow> (FailureList 400 ''Validation failed'' messages, posts)
         | Inl _ \<Rightarrow> (Failure 500 ''Server error while creating post'', posts)))"


definition provided :: "field \<Rightarrow> jsval option \<Rightarrow> (field \<times> jsval) list" where
  "provided f v = (case v of None \<Rightarrow> [] | Some x \<Rightarrow> [(f, x)])"

definition updatePost ::
  "(string \<Rightarrow> 'oid option) \<Rightarrow> int \<Rightarrow> 'oid store \<Rightarrow> string \<Rightarrow> body
     \<Rightarrow> 'oid response \<times> 'oid store" where
  "updatePost parseId now posts rawId b =
     (let title = b ''title''; content = b ''content''; author = b ''author'' in
      case parseId rawId of
        None \<Rightarrow> (Failure 400 ''Invalid post ID format'', posts)
      | Some oid \<Rightarrow>
          (let updateData = provided Title title @ provided Content content @ provided Author author in
           if length updateData = 0
           then (Failure 400 ''No fields provided for update'', posts)
           else
             (case findByIdAndUpdate now posts oid updateData of
                Inr (None, _) \<Rightarrow> (Failure 404 ''Post not found'', posts)
              | Inr (Some post, posts') \<Rightarrow> (PostData 200 (Some ''Post updated successfully'') post, posts')
              | Inl (ValidationError messages) \<Rightarrow> (FailureList 400 ''Validation failed'' messages, posts)
              | Inl _ \<Rightarrow> (Failure 500 ''Server error while updating post'', posts))))"


section \<open>Listing: the query, the store's regular expressions, pagination\<close>




definition to_lower :: "char \<Rightarrow> char" where
  "to_lower c =
     (let n = (of_char c :: nat) in if 65 \<le> n \<and> n \<le> 90 then char_of (n + 32) else c)"




text \<open>
  The query object \<open>getAllPosts\<close> builds: its keys all have to hold; \<open>Or\<close> is \<open>$or\<close> over
  regular-expression conditions on paths.
\<close>

datatype cond = Regex field string | Or "(field \<times> string) list"








record list_query =
  q_page :: "string option"
  q_limit :: "string option"
  q_author :: "string option"
  q_search :: "string option"

text \<open>
  The query parameters \<open>getAllPosts\<close> reads, each absent or a string (the arrays and
  objects that bracketed parameter names produce are outside the model).
  \<open>parseInt(v, 10)\<close> on a parameter reads an absent one as the text \<open>undefined\<close>.
\<close>

definition parseIntParam :: "string option \<Rightarrow> int option" where
  "parseIntParam v = parseInt (case v of None \<Rightarrow> ''undefined'' | Some s \<Rightarrow> s)"

text \<open>\<open>n || d\<close> on a number: NaN and 0 are falsy.\<close>

definition or_default :: "int option \<Rightarrow> int \<Rightarrow> int" where
  "or_default n d = (case n of None \<Rightarrow> d | Some k \<Rightarrow> if k = 0 then d else k)"


definition limitOf :: "list_query \<Rightarrow> int" where
  "limitOf q = or_default (parseIntParam (q_limit q)) 10"

text \<open>A query parameter is truthy when it is present and not empty.\<close>

definition present :: "string option \<Rightarrow> bool" where
  "present v = (case v of None \<Rightarrow> False | Some s \<Rightarrow> s \<noteq> [])"

definition queryOf :: "list_query \<Rightarrow> cond list" where
  "queryOf q =
     (if present (q_author q) then [Regex Author (the (q_author q))] else []) @
     (if present (q_search q)
      then [Or [(Title, the (q_search q)), (Content, the (q_search q))]] else [])"



section \<open>The specification's vocabulary\<close>


text \<open>The values JavaScript takes for false: absent, \<open>null\<close>, \<open>false\<close>, 0 and the empty string.\<close>

definition falsy :: "jsval option \<Rightarrow> bool" where
  "falsy v =
     (v = None \<or> v = Some JNull \<or> v = Some (JBool False) \<or> v = Some (JNum 0) \<or> v = Some (JStr []))"

text \<open>
  One identifier syntax, used in the examples: 24 hexadecimal digits in either case,
  read as a number.
\<close>

definition hex_val :: "char \<Rightarrow> nat option" where
  "hex_val c =
     (let n = (of_char c :: nat) in
      if 48 \<le> n \<and> n \<le> 57 then Some (n - 48)
      else if 97 \<le> n \<and> n \<le> 102 then Some (n - 87)
      else if 65 \<le> n \<and> n \<le> 70 then Some (n - 55)
      else None)"

definition hex24 :: "string \<Rightarrow> nat option" where
  "hex24 s =
     (if length s = 24 \<and> list_all (\<lambda>c. hex_val c \<noteq> None) s
      then Some (foldl (\<lambda>acc c. acc * 16 + the (hex_val c)) 0 s)
      else None)"

text \<open>A request body with a property the handlers do not read.\<close>

definition example_body :: body where
  "example_body =
     Map.empty(''title'' \<mapsto> JStr ''  Hello '', ''content'' \<mapsto> JStr ''0123456789'',
               ''author'' \<mapsto> JStr ''Al'', ''id'' \<mapsto> JNum 7)"











text \<open>
  \<open>t\<close> contains \<open>s\<close> as a substring when case is ignored; a text is plain when the
  store's regular-expression syntax takes each of its characters literally.
\<close>

definition ci_contains :: "string \<Rightarrow> string \<Rightarrow> bool" where
  "ci_contains s t = sublist (map to_lower s) (map to_lower t)"





text \<open>
  The text an update stores for a supplied value: the value cast and trimmed, when the
  cast succeeds and the validators of the field pass. A supplied value is accepted when
  there is such a text; a body is acceptable when it supplies at least one of the three
  fields and every value it supplies is accepted.
\<close>

definition stored_text :: "field \<Rightarrow> jsval \<Rightarrow> string option" where
  "stored_text f x =
     (case applySetters (Some x) of
        CastError \<Rightarrow> None
      | Value s \<Rightarrow> (case doValidate (postSchema f) s of Inl _ \<Rightarrow> None | Inr y \<Rightarrow> Some y))"

definition field_ok :: "field \<Rightarrow> jsval option \<Rightarrow> bool" where
  "field_ok f v = (case v of None \<Rightarrow> True | Some x \<Rightarrow> stored_text f x \<noteq> None)"

definition acceptable :: "body \<Rightarrow> bool" where
  "acceptable b =
     ((b ''title'' \<noteq> None \<or> b ''content'' \<noteq> None \<or> b ''author'' \<noteq> None)
      \<and> field_ok Title (b ''title'') \<and> field_ok Content (b ''content'')
      \<and> field_ok Author (b ''author''))"

text \<open>
  The Post after an accepted update: each supplied field holds its new text, each field
  left out holds what it held, \<open>updatedAt\<close> is the time of the update.
\<close>

definition new_text :: "field \<Rightarrow> jsval option \<Rightarrow> string \<Rightarrow> string" where
  "new_text f v old =
     (case v of
        None \<Rightarrow> old
      | Some x \<Rightarrow> (case stored_text f x of None \<Rightarrow> old | Some y \<Rightarrow> y))"

definition spec_updated :: "int \<Rightarrow> body \<Rightarrow> 'oid post \<Rightarrow> 'oid post" where
  "spec_updated now b p =
     p\<lparr>title := new_text Title (b ''title'') (title p),
       content := new_text Content (b ''content'') (content p),
       author := new_text Author (b ''author'') (author p),
       updatedAt := now\<rparr>"

text \<open>The \<open>updateData\<close> object that \<open>updatePost\<close> builds from a body, and the texts it sets.\<close>

definition updateDataOf :: "body \<Rightarrow> (field \<times> jsval) list" where
  "updateDataOf b =
     provided Title (b ''title'') @ provided Content (b ''content'') @ provided Author (b ''author'')"

definition texts :: "(field \<times> jsval) list \<Rightarrow> (field \<times> string) list" where
  "texts ud =
     concat (map (\<lambda>(f, x). case stored_text f x of None \<Rightarrow> [] | Some y \<Rightarrow> [(f, y)]) ud)"



section \<open>Properties\<close>

subsection \<open>Validation of string values\<close>






subsection \<open>Create\<close>

lemma Post_create_Inr:
  assumes "Post_create newId now posts t c a = Inr (p, posts')"
  shows "pid p = newId \<and> createdAt p = now \<and> updatedAt p = now \<and> posts' = posts @ [p]
         \<and> newId \<notin> ids posts"
proof (cases "set_path Title t")
  case (Inl e)
  with assms show ?thesis by (simp add: Post_create_def)
next
  case (Inr t')
  note t = this
  show ?thesis
  proof (cases "set_path Content c")
    case (Inl e)
    with assms t show ?thesis by (simp add: Post_create_def)
  next
    case (Inr c')
    note c = this
    show ?thesis
    proof (cases "set_path Author a")
      case (Inl e)
      with assms t c show ?thesis by (simp add: Post_create_def)
    next
      case (Inr a')
      with assms t c show ?thesis
        by (auto simp: Post_create_def Let_def split: if_splits)
    qed
  qed
qed

lemma createPost_created:
  assumes "createPost newId now posts b = (PostData st m p, posts')"
  shows "pid p = newId \<and> createdAt p = now \<and> updatedAt p = now \<and> posts' = posts @ [p]
         \<and> newId \<notin> ids posts"
proof (cases "Post_create newId now posts (b ''title'') (b ''content'') (b ''author'')")
  case (Inl e)
  with assms show ?thesis
    by (cases e) (simp_all add: createPost_def Let_def split: if_splits)
next
  case (Inr r)
  obtain d ps where r: "r = (d, ps)" by (cases r)
  from assms Inr have "d = p \<and> ps = posts'"
    by (simp add: createPost_def Let_def r split: if_splits)
  with Inr r
  have "Post_create newId now posts (b ''title'') (b ''content'') (b ''author'') = Inr (p, posts')"
    by simp
  then show ?thesis by (rule Post_create_Inr)
qed



lemma falsy_iff: "falsy v \<longleftrightarrow> \<not> truthy v"
proof (cases v)
  case None
  then show ?thesis by (simp add: falsy_def)
next
  case (Some x)
  then show ?thesis by (cases x) (auto simp: falsy_def)
qed

text \<open>
  Claim C2, as amended. The guard of Create tests truth, not type: when title, content
  or author is absent or falsy (\<open>null\<close>, \<open>false\<close>, 0, the empty string), Create answers
  HTTP 400 with the message that lists the required fields, and the store is left as it
  was, no insert attempted; when none of them is falsy the answer is not that one.
\<close>

theorem C2_missing_field:
  "(falsy (b ''title'') \<or> falsy (b ''content'') \<or> falsy (b ''author'')
      \<longrightarrow> createPost newId now posts b =
            (Failure 400 ''Please provide all required fields: title, content, and author'', posts))
   \<and> (\<not> (falsy (b ''title'') \<or> falsy (b ''content'') \<or> falsy (b ''author''))
      \<longrightarrow> fst (createPost newId now posts b) \<noteq>
            Failure 400 ''Please provide all required fields: title, content, and author'')"
  by (auto simp: falsy_iff createPost_def Post_create_def Let_def
      split: sum.splits mongoose_error.splits prod.splits if_splits)

theorem C2_missing_field_witness:
  "createPost (7::nat) 1000 [] (example_body(''content'' \<mapsto> JStr [])) =
     (Failure 400 ''Please provide all required fields: title, content, and author'', [])"
  using C2_missing_field [of "example_body(''content'' \<mapsto> JStr [])" "7::nat" 1000 "[]"]
  by (simp add: example_body_def falsy_def)

text \<open>
  The claim as stated fails on a title that is not a string: \<open>true\<close> passes the guard, is
  cast to the text \<open>true\<close>, and the Post is created.
\<close>

theorem C2_counterexample:
  "createPost (7::nat) 1000 [] (example_body(''title'' \<mapsto> JBool True)) =
     (PostData 201 (Some ''Post created successfully'')
        \<lparr>pid = 7, title = ''true'', content = ''0123456789'', author = ''Al'',
         createdAt = 1000, updatedAt = 1000\<rparr>,
      [\<lparr>pid = 7, title = ''true'', content = ''0123456789'', author = ''Al'',
         createdAt = 1000, updatedAt = 1000\<rparr>])"
  by (simp add: example_body_def createPost_def Post_create_def set_path_def applySetters_def
      doValidate_def trim_def is_space_def ids_def Let_def)

subsection \<open>Validation failures of Create and Update\<close>














subsection \<open>Reading and writing decimal numbers\<close>














subsection \<open>List: pagination\<close>




















lemma queryOf_page [simp]: "queryOf (q\<lparr>q_page := v\<rparr>) = queryOf q"
  by (simp add: queryOf_def)

lemma limitOf_page [simp]: "limitOf (q\<lparr>q_page := v\<rparr>) = limitOf q"
  by (simp add: limitOf_def)






subsection \<open>List: filters\<close>




lemma ci_contains_Nil [simp]: "ci_contains [] t"
  by (simp add: ci_contains_def)









subsection \<open>Update: casting, validation and the write\<close>

lemma castUpdate_ok:
  "list_all (\<lambda>(f, x). stored_text f x \<noteq> None) ud \<Longrightarrow>
     \<exists>cs. castUpdate ud = Inr cs \<and> lefts (updateValidate cs) = []
          \<and> rights (updateValidate cs) = texts ud"
proof (induction ud)
  case Nil
  then show ?case by (simp add: updateValidate_def texts_def)
next
  case (Cons fx ud)
  obtain f x where fx: "fx = (f, x)" by (cases fx)
  from Cons.prems have ok: "stored_text f x \<noteq> None"
    and rest: "list_all (\<lambda>(f, x). stored_text f x \<noteq> None) ud"
    by (simp_all add: fx)
  from Cons.IH [OF rest] obtain cs where cs: "castUpdate ud = Inr cs"
    "lefts (updateValidate cs) = []" "rights (updateValidate cs) = texts ud" by blast
  from ok obtain s y where s: "applySetters (Some x) = Value s"
    and y: "doValidate (postSchema f) s = Inr y" and st: "stored_text f x = Some y"
    by (auto simp: stored_text_def split: cast_result.splits sum.splits)
  have "castUpdate (fx # ud) = Inr ((f, s) # cs)"
    by (simp add: fx s cs(1))
  moreover have "lefts (updateValidate ((f, s) # cs)) = []"
    using cs(2) by (simp add: updateValidate_def y)
  moreover have "rights (updateValidate ((f, s) # cs)) = texts (fx # ud)"
    using cs(3) by (simp add: updateValidate_def y texts_def fx st)
  ultimately show ?case by blast
qed

lemma castUpdate_bad:
  "\<not> list_all (\<lambda>(f, x). stored_text f x \<noteq> None) ud \<Longrightarrow>
     (\<exists>f. castUpdate ud = Inl (CastFailed f))
     \<or> (\<exists>cs. castUpdate ud = Inr cs \<and> lefts (updateValidate cs) \<noteq> [])"
proof (induction ud)
  case Nil
  then show ?case by simp
next
  case (Cons fx ud)
  obtain f x where fx: "fx = (f, x)" by (cases fx)
  show ?case
  proof (cases "applySetters (Some x)")
    case CastError
    then show ?thesis by (simp add: fx)
  next
    case (Value s)
    note s = this
    show ?thesis
    proof (cases "castUpdate ud")
      case (Inl e)
      have "\<exists>g. e = CastFailed g"
      proof (cases "list_all (\<lambda>(f, x). stored_text f x \<noteq> None) ud")
        case True
        from castUpdate_ok [OF this] Inl show ?thesis by auto
      next
        case False
        from Cons.IH [OF this] Inl show ?thesis by auto
      qed
      then show ?thesis by (auto simp: fx s Inl)
    next
      case (Inr cs)
      note cs = this
      show ?thesis
      proof (cases "doValidate (postSchema f) s")
        case (Inl m)
        then show ?thesis by (simp add: fx s cs updateValidate_def)
      next
        case (Inr y)
        then have "stored_text f x \<noteq> None" by (simp add: stored_text_def s)
        with Cons.prems have "\<not> list_all (\<lambda>(f, x). stored_text f x \<noteq> None) ud"
          by (simp add: fx)
        from Cons.IH [OF this] cs have "lefts (updateValidate cs) \<noteq> []" by auto
        then show ?thesis by (simp add: fx s cs updateValidate_def Inr)
      qed
    qed
  qed
qed

lemma all_ok_updateDataOf:
  "list_all (\<lambda>(f, x). stored_text f x \<noteq> None) (updateDataOf b) \<longleftrightarrow>
     field_ok Title (b ''title'') \<and> field_ok Content (b ''content'') \<and> field_ok Author (b ''author'')"
  by (simp add: updateDataOf_def provided_def field_ok_def split: option.splits)

lemma updateDataOf_Nil:
  "updateDataOf b = [] \<longleftrightarrow> b ''title'' = None \<and> b ''content'' = None \<and> b ''author'' = None"
  by (simp add: updateDataOf_def provided_def split: option.splits)

lemma foldl_texts:
  assumes "field_ok Title (b ''title'')" and "field_ok Content (b ''content'')"
    and "field_ok Author (b ''author'')"
  shows "(foldl set_field p (texts (updateDataOf b)))\<lparr>updatedAt := now\<rparr> = spec_updated now b p"
  using assms
  by (cases "b ''title''"; cases "b ''content''"; cases "b ''author''")
     (auto simp: texts_def updateDataOf_def provided_def field_ok_def spec_updated_def new_text_def)

lemma findByIdAndUpdate_ok:
  assumes "field_ok Title (b ''title'')" and "field_ok Content (b ''content'')"
    and "field_ok Author (b ''author'')"
  shows "findByIdAndUpdate now posts oid (updateDataOf b) =
           (case findById posts oid of
              None \<Rightarrow> Inr (None, posts)
            | Some p \<Rightarrow> Inr (Some (spec_updated now b p),
                           update_first (\<lambda>p. pid p = oid) (spec_updated now b) posts))"
proof -
  have "list_all (\<lambda>(f, x). stored_text f x \<noteq> None) (updateDataOf b)"
    using assms all_ok_updateDataOf by blast
  from castUpdate_ok [OF this] obtain cs where cs: "castUpdate (updateDataOf b) = Inr cs"
    "lefts (updateValidate cs) = []" "rights (updateValidate cs) = texts (updateDataOf b)"
    by blast
  have upd: "(\<lambda>p. (foldl set_field p (texts (updateDataOf b)))\<lparr>updatedAt := now\<rparr>)
               = spec_updated now b"
    using foldl_texts [OF assms] by auto
  have "findByIdAndUpdate now posts oid (updateDataOf b) =
          (case findById posts oid of
             None \<Rightarrow> Inr (None, posts)
           | Some p \<Rightarrow>
               Inr (Some ((\<lambda>p. (foldl set_field p (texts (updateDataOf b)))\<lparr>updatedAt := now\<rparr>) p),
                    update_first (\<lambda>p. pid p = oid)
                      (\<lambda>p. (foldl set_field p (texts (updateDataOf b)))\<lparr>updatedAt := now\<rparr>) posts))"
    apply (simp add: findByIdAndUpdate_def cs(1) cs(2) Let_def)
    apply (subst cs(3))
    apply (subst cs(3))
    apply (rule refl)
    done
  then show ?thesis unfolding upd foldl_texts [OF assms] .
qed

lemma findByIdAndUpdate_bad:
  assumes "\<not> (field_ok Title (b ''title'') \<and> field_ok Content (b ''content'')
             \<and> field_ok Author (b ''author''))"
  shows "\<exists>e. findByIdAndUpdate now posts oid (updateDataOf b) = Inl e"
proof -
  have "\<not> list_all (\<lambda>(f, x). stored_text f x \<noteq> None) (updateDataOf b)"
    using assms all_ok_updateDataOf by blast
  from castUpdate_bad [OF this] show ?thesis
    by (auto simp: findByIdAndUpdate_def Let_def)
qed

lemma updatePost_valid_id:
  assumes "parseId rawId = Some oid"
  shows "updatePost parseId now posts rawId b =
           (if updateDataOf b = [] then (Failure 400 ''No fields provided for update'', posts)
            else
              (case findByIdAndUpdate now posts oid (updateDataOf b) of
                 Inr (None, _) \<Rightarrow> (Failure 404 ''Post not found'', posts)
               | Inr (Some post, posts') \<Rightarrow>
                   (PostData 200 (Some ''Post updated successfully'') post, posts')
               | Inl (ValidationError messages) \<Rightarrow>
                   (FailureList 400 ''Validation failed'' messages, posts)
               | Inl _ \<Rightarrow> (Failure 500 ''Server error while updating post'', posts)))"
  unfolding updatePost_def Let_def updateDataOf_def [symmetric] by (simp add: assms)

lemma updatePost_acceptable:
  assumes "parseId rawId = Some oid" and "acceptable b"
  shows "updatePost parseId now posts rawId b =
           (case findById posts oid of
              None \<Rightarrow> (Failure 404 ''Post not found'', posts)
            | Some p \<Rightarrow>
                (PostData 200 (Some ''Post updated successfully'') (spec_updated now b p),
                 update_first (\<lambda>p. pid p = oid) (spec_updated now b) posts))"
proof -
  note valid = updatePost_valid_id [where parseId = parseId and rawId = rawId, OF assms(1)]
  from assms(2) have ne: "updateDataOf b \<noteq> []"
    and ok: "field_ok Title (b ''title'')" "field_ok Content (b ''content'')"
      "field_ok Author (b ''author'')"
    by (auto simp: acceptable_def updateDataOf_Nil)
  show ?thesis
    by (simp add: valid ne findByIdAndUpdate_ok [OF ok] split: option.splits)
qed

lemma updatePost_not_acceptable:
  assumes "parseId rawId = Some oid" and "\<not> acceptable b"
  shows "snd (updatePost parseId now posts rawId b) = posts
         \<and> status (fst (updatePost parseId now posts rawId b)) \<in> {400, 500}"
proof (cases "updateDataOf b = []")
  case True
  then show ?thesis
    by (simp add: updatePost_valid_id [where parseId = parseId and rawId = rawId, OF assms(1)])
next
  case False
  with assms(2) have "\<not> (field_ok Title (b ''title'') \<and> field_ok Content (b ''content'')
             \<and> field_ok Author (b ''author''))"
    by (auto simp: acceptable_def updateDataOf_Nil)
  from findByIdAndUpdate_bad [OF this, of now posts oid] obtain e
    where "findByIdAndUpdate now posts oid (updateDataOf b) = Inl e" by blast
  with False show ?thesis
    by (cases e)
       (simp_all add: updatePost_valid_id [where parseId = parseId and rawId = rawId, OF assms(1)])
qed

subsection \<open>Identifiers: GetById, Update, Delete\<close>










subsection \<open>Update: the fields of the body\<close>










subsection \<open>Update: what changes\<close>

lemma update_first_none: "\<forall>x \<in> set xs. \<not> P x \<Longrightarrow> update_first P f xs = xs"
  by (induction xs) auto


lemma spec_updated_frame:
  "pid (spec_updated now b p) = pid p" "createdAt (spec_updated now b p) = createdAt p"
  "updatedAt (spec_updated now b p) = now"
  by (simp_all add: spec_updated_def)

lemma updatePost_success:
  assumes "parseId rawId = Some oid" and "findById posts oid = Some p"
    and "updatePost parseId now posts rawId b = (PostData 200 m p', posts')"
  shows "acceptable b" and "p' = spec_updated now b p"
    and "posts' = update_first (\<lambda>q. pid q = oid) (spec_updated now b) posts"
proof -
  show a: "acceptable b"
  proof (rule ccontr)
    assume "\<not> acceptable b"
    then have "status (fst (updatePost parseId now posts rawId b)) \<in> {400, 500}"
      using updatePost_not_acceptable [where parseId = parseId and rawId = rawId and oid = oid and b = b]
        assms(1) by blast
    then show False by (simp add: assms(3))
  qed
  have "updatePost parseId now posts rawId b =
          (PostData 200 (Some ''Post updated successfully'') (spec_updated now b p),
           update_first (\<lambda>q. pid q = oid) (spec_updated now b) posts)"
    using updatePost_acceptable [where parseId = parseId and rawId = rawId and oid = oid and b = b,
        OF assms(1) a]
    by (simp add: assms(2))
  then show "p' = spec_updated now b p"
    and "posts' = update_first (\<lambda>q. pid q = oid) (spec_updated now b) posts"
    by (simp_all add: assms(3))
qed




subsection \<open>Properties of the body that are not read\<close>

lemma createPost_cong:
  "b ''title'' = b' ''title'' \<Longrightarrow> b ''content'' = b' ''content'' \<Longrightarrow> b ''author'' = b' ''author''
     \<Longrightarrow> createPost newId now posts b = createPost newId now posts b'"
  unfolding createPost_def by (simp only:)

lemma updatePost_cong:
  "b ''title'' = b' ''title'' \<Longrightarrow> b ''content'' = b' ''content'' \<Longrightarrow> b ''author'' = b' ''author''
     \<Longrightarrow> updatePost parseId now posts rawId b = updatePost parseId now posts rawId b'"
  unfolding updatePost_def by (simp only:)

text \<open>
  Claim C10. Create and Update read title, content and author from the body and nothing
  else: two bodies that agree on these three give the same response and the same store,
  whatever else they hold (an \<open>id\<close>, \<open>_id\<close>, \<open>createdAt\<close> or \<open>updatedAt\<close> among it). The
  id and the timestamps of a created Post are the generated id and the time of the
  request; an updated Post keeps its id and \<open>createdAt\<close>, and its \<open>updatedAt\<close> is the
  time of the update.
\<close>

theorem C10_other_properties_ignored:
  "(b ''title'' = b' ''title'' \<and> b ''content'' = b' ''content'' \<and> b ''author'' = b' ''author''
      \<longrightarrow> createPost newId now posts b = createPost newId now posts b'
        \<and> updatePost parseId now posts rawId b = updatePost parseId now posts rawId b')
   \<and> (createPost newId now posts b = (PostData st m p, posts')
      \<longrightarrow> pid p = newId \<and> createdAt p = now \<and> updatedAt p = now \<and> posts' = posts @ [p])
   \<and> (parseId rawId = Some oid \<and> findById posts oid = Some q
        \<and> updatePost parseId now posts rawId b = (PostData 200 m q', posts'')
      \<longrightarrow> pid q' = pid q \<and> createdAt q' = createdAt q \<and> updatedAt q' = now)"
proof (intro conjI impI)
  assume h: "parseId rawId = Some oid \<and> findById posts oid = Some q
        \<and> updatePost parseId now posts rawId b = (PostData 200 m q', posts'')"
  then have a1: "parseId rawId = Some oid" and a2: "findById posts oid = Some q"
    and a3: "updatePost parseId now posts rawId b = (PostData 200 m q', posts'')"
    by simp_all
  have "q' = spec_updated now b q"
    by (rule updatePost_success(2) [where parseId = parseId and rawId = rawId, OF a1 a2 a3])
  then show "pid q' = pid q" "createdAt q' = createdAt q" "updatedAt q' = now"
    by (simp_all add: spec_updated_frame)
next
  assume "b ''title'' = b' ''title'' \<and> b ''content'' = b' ''content'' \<and> b ''author'' = b' ''author''"
  then have e: "b ''title'' = b' ''title''" "b ''content'' = b' ''content''"
    "b ''author'' = b' ''author''" by blast+
  show "createPost newId now posts b = createPost newId now posts b'"
    using e by (rule createPost_cong)
  show "updatePost parseId now posts rawId b = updatePost parseId now posts rawId b'"
    using e by (rule updatePost_cong)
next
  assume "createPost newId now posts b = (PostData st m p, posts')"
  from createPost_created [OF this]
  show "pid p = newId" "createdAt p = now" "updatedAt p = now" "posts' = posts @ [p]"
    by simp_all
qed

theorem C10_other_properties_ignored_witness:
  "createPost (7::nat) 1000 []
     (example_body(''_id'' \<mapsto> JStr ''000000000000000000000001'', ''createdAt'' \<mapsto> JNum 5,
                   ''updatedAt'' \<mapsto> JNum 6)) =
     (PostData 201 (Some ''Post created successfully'')
        \<lparr>pid = 7, title = ''Hello'', content = ''0123456789'', author = ''Al'',
         createdAt = 1000, updatedAt = 1000\<rparr>,
      [\<lparr>pid = 7, title = ''Hello'', content = ''0123456789'', author = ''Al'',
         createdAt = 1000, updatedAt = 1000\<rparr>])"
proof -
  have c: "createPost (7::nat) 1000 [] example_body =
     (PostData 201 (Some ''Post created successfully'')
        \<lparr>pid = 7, title = ''Hello'', content = ''0123456789'', author = ''Al'',
         createdAt = 1000, updatedAt = 1000\<rparr>,
      [\<lparr>pid = 7, title = ''Hello'', content = ''0123456789'', author = ''Al'',
         createdAt = 1000, updatedAt = 1000\<rparr>])"
    by (simp add: example_body_def createPost_def Post_create_def set_path_def applySetters_def
        doValidate_def trim_def is_space_def ids_def Let_def)
  have "createPost (7::nat) 1000 []
          (example_body(''_id'' \<mapsto> JStr ''000000000000000000000001'',
             ''createdAt'' \<mapsto> JNum 5, ''updatedAt'' \<mapsto> JNum 6)) =
        createPost (7::nat) 1000 [] example_body"
    using C10_other_properties_ignored
      [where b = "example_body(''_id'' \<mapsto> JStr ''000000000000000000000001'',
                    ''createdAt'' \<mapsto> JNum 5, ''updatedAt'' \<mapsto> JNum 6)"
         and b' = example_body and newId = "7::nat" and now = 1000 and posts = "[]"
         and parseId = hex24 and rawId = "[]"]
    by simp
  then show ?thesis by (simp only: c)
qed

end
